theory Spec2Isabelle
  imports Main
begin

section \<open>Data model\<close>

text \<open>
  Python strings are modelled as \<^typ>\<open>string\<close>, a list of characters whose code points
  lie below 256. An optional attribute (\<open>T | None\<close>) is a value of type \<open>T option\<close>.
\<close>

text \<open>
  \<open>datetime\<close>: the value \<open>utils.now()\<close> returns, \<open>datetime.now(timezone.utc)\<close>, always in
  UTC. Reading the clock is an effect, so every operation that calls \<open>now()\<close> takes the
  value read as an argument.
\<close>

record datetime =
  year :: nat
  month :: nat
  day :: nat
  hour :: nat
  minute :: nat
  second :: nat
  microsecond :: nat

text \<open>
  Modelled from the spec: the enums \<open>Status\<close> and \<open>RunState\<close> of \<open>arp_standard_model\<close>
  are not part of the sources; their members are the ones section 3 of the specification
  lists (ok/degraded/down, and running/succeeded/failed/canceled).
\<close>

datatype Status = ok | degraded | down

datatype RunState = running | succeeded | failed | canceled

text \<open>
  \<open>Any\<close>: opaque structured data (a run context, extensions, the details of a check or of
  an error). A \<open>dict\<close> with string keys is an association list in insertion order.
\<close>

datatype pyval =
    PNone
  | PBool bool
  | PInt int
  | PStr string
  | PStatus Status
  | PList "pyval list"
  | PDict "(string \<times> pyval) list"

text \<open>
  Modelled from the spec: the models \<open>Run\<close>, \<open>RunStartRequest\<close>, \<open>Check\<close> and \<open>Health\<close> of
  \<open>arp_standard_model\<close> are not part of the sources. The records below carry the
  attributes that the gateway reads or writes, named as in the sources; an attribute the
  gateway leaves out of a constructor call holds \<open>None\<close>.
\<close>

record Run =
  run_id :: string
  state :: RunState
  root_node_run_id :: string
  run_context :: "pyval option"
  started_at :: datetime
  ended_at :: "datetime option"
  extensions :: "pyval option"

record RunStartRequest =
  body_run_id :: "string option"
  body_root_node_type_ref :: pyval
  body_input :: pyval
  body_run_context :: "pyval option"
  body_extensions :: "pyval option"

record Check =
  check_name :: string
  check_status :: Status
  check_message :: "string option"
  check_details :: "(string \<times> pyval) list option"

record Health =
  status :: Status
  time :: datetime
  checks :: "Check list option"

text \<open>
  Exceptions. \<open>ArpApiError\<close> (of \<open>arp_standard_client\<close>) carries \<open>code\<close>, \<open>message\<close>,
  \<open>status_code\<close> and \<open>details\<close>; \<open>ArpServerError\<close> (of \<open>arp_standard_server\<close>) carries
  \<open>code\<close>, \<open>message\<close>, \<open>status_code\<close> and \<open>details\<close>; \<open>OtherException\<close> stands for an
  instance of any other subclass of \<open>Exception\<close>, identified by a description of it.
  What \<open>str(exc)\<close> gives is decided by classes outside the sources, so the functions that
  call \<open>str\<close> on an exception take it as the argument \<open>str_of\<close>.
\<close>

datatype exn =
    ArpApiError string string "int option" "pyval option"
  | ArpServerError string string int "pyval option"
  | OtherException string

text \<open>
  The truth value Python gives an optional string or integer in \<open>x or default\<close>:
  \<open>None\<close>, the empty string and \<open>0\<close> are false.
\<close>

definition or_str :: "string option \<Rightarrow> string \<Rightarrow> string" where
  "or_str x dflt = (case x of None \<Rightarrow> dflt | Some s \<Rightarrow> if s = [] then dflt else s)"

definition or_int :: "int option \<Rightarrow> int \<Rightarrow> int" where
  "or_int x dflt = (case x of None \<Rightarrow> dflt | Some n \<Rightarrow> if n = 0 then dflt else n)"


section \<open>The downstream coordinator adapter (\<open>run_coordinator_client.py\<close>)\<close>

text \<open>
  \<open>RunCoordinatorClient\<close> (of \<open>arp_standard_client\<close>) is the remote coordinator seen from
  the adapter: five blocking calls, each of which returns a value or raises. The request
  objects the adapter builds wrap nothing but the run identifier (or the start body, or
  nothing), so each call takes that content.
\<close>

record RunCoordinatorClient =
  client_cancel_run :: "string \<Rightarrow> exn + Run"
  client_get_run :: "string \<Rightarrow> exn + Run"
  client_health :: "unit \<Rightarrow> exn + Health"
  client_start_run :: "RunStartRequest \<Rightarrow> exn + Run"
  client_stream_run_events :: "string \<Rightarrow> exn + string"

record RunCoordinatorGatewayClient =
  base_url :: string
  client :: RunCoordinatorClient

text \<open>
  \<open>RunCoordinatorGatewayClient._call\<close>: the first \<open>except\<close> clause takes an \<open>ArpApiError\<close>,
  the second every other exception.
\<close>

definition call ::
  "(exn \<Rightarrow> string) \<Rightarrow> RunCoordinatorGatewayClient \<Rightarrow> ('q \<Rightarrow> exn + 'a) \<Rightarrow> 'q \<Rightarrow> exn + 'a" where
  "call str_of self fn request =
     (case fn request of
        Inr result \<Rightarrow> Inr result
      | Inl exc \<Rightarrow>
          (case exc of
             ArpApiError c m sc d \<Rightarrow> Inl (ArpServerError c m (or_int sc 502) d)
           | _ \<Rightarrow>
               Inl (ArpServerError ''run_coordinator_unavailable''
                      ''Run Coordinator request failed'' 502
                      (Some (PDict [(''run_coordinator_url'', PStr (base_url self)),
                                    (''error'', PStr (str_of exc))])))))"

definition adapter_cancel_run ::
  "(exn \<Rightarrow> string) \<Rightarrow> RunCoordinatorGatewayClient \<Rightarrow> string \<Rightarrow> exn + Run" where
  "adapter_cancel_run str_of self rid = call str_of self (client_cancel_run (client self)) rid"

definition adapter_get_run ::
  "(exn \<Rightarrow> string) \<Rightarrow> RunCoordinatorGatewayClient \<Rightarrow> string \<Rightarrow> exn + Run" where
  "adapter_get_run str_of self rid = call str_of self (client_get_run (client self)) rid"

definition adapter_health ::
  "(exn \<Rightarrow> string) \<Rightarrow> RunCoordinatorGatewayClient \<Rightarrow> exn + Health" where
  "adapter_health str_of self = call str_of self (client_health (client self)) ()"

definition adapter_start_run ::
  "(exn \<Rightarrow> string) \<Rightarrow> RunCoordinatorGatewayClient \<Rightarrow> RunStartRequest \<Rightarrow> exn + Run" where
  "adapter_start_run str_of self body = call str_of self (client_start_run (client self)) body"

definition adapter_stream_run_events ::
  "(exn \<Rightarrow> string) \<Rightarrow> RunCoordinatorGatewayClient \<Rightarrow> string \<Rightarrow> exn + string" where
  "adapter_stream_run_events str_of self rid =
     call str_of self (client_stream_run_events (client self)) rid"


section \<open>The run gateway (\<open>gateway.py\<close>)\<close>

text \<open>
  The state of a gateway. \<open>runs\<close> is the dictionary \<open>self._runs\<close>; its values are
  references to \<open>Run\<close> objects. The objects themselves live in \<open>objects\<close>, the store of
  all \<open>Run\<close> objects created so far: a reference is an index into it, a new object is
  appended, and an object once created is never written to by the gateway. A reference
  handed out to a caller therefore keeps denoting the same position of the store.
\<close>

type_synonym ref = nat

record RunGateway =
  runs :: "string \<rightharpoonup> ref"
  objects :: "Run list"
  run_coordinator :: "RunCoordinatorGatewayClient option"
  service_name :: string
  service_version :: string

definition new_object :: "RunGateway \<Rightarrow> Run \<Rightarrow> ref \<times> RunGateway" where
  "new_object self run = (length (objects self), self\<lparr>objects := objects self @ [run]\<rparr>)"

text \<open>
  Following a reference. The gateway only follows references it finds in \<open>self._runs\<close>,
  and those always denote an object of the store (\<open>registry_ok\<close> below).
\<close>

definition deref :: "RunGateway \<Rightarrow> ref \<Rightarrow> Run" where
  "deref self r = objects self ! r"

text \<open>\<open>RunGateway._get_local_run\<close>.\<close>

definition get_local_run :: "RunGateway \<Rightarrow> string \<Rightarrow> exn + ref" where
  "get_local_run self rid =
     (case runs self rid of
        None \<Rightarrow>
          Inl (ArpServerError ''run_not_found'' (''Run '' @ [CHR 0x27] @ rid @ [CHR 0x27] @ '' not found'')
                 404 None)
      | Some run \<Rightarrow> Inr run)"

text \<open>
  A \<open>Run\<close> that the coordinator returned is a new object; the gateway hands its reference
  on and leaves \<open>self._runs\<close> alone.
\<close>

definition proxied :: "RunGateway \<Rightarrow> exn + Run \<Rightarrow> (exn + ref) \<times> RunGateway" where
  "proxied self outcome =
     (case outcome of
        Inl exc \<Rightarrow> (Inl exc, self)
      | Inr run \<Rightarrow> (let (r, self') = new_object self run in (Inr r, self')))"

text \<open>
  \<open>RunGateway.start_run\<close>. \<open>uuid_a\<close> and \<open>uuid_b\<close> are the \<open>hex\<close> of the two \<open>uuid.uuid4()\<close>
  draws (the first is made only when the request carries no identifier), \<open>t\<close> is what
  \<open>now()\<close> reads.
\<close>

definition start_run ::
  "(exn \<Rightarrow> string) \<Rightarrow> RunGateway \<Rightarrow> string \<Rightarrow> string \<Rightarrow> datetime \<Rightarrow> RunStartRequest
     \<Rightarrow> (exn + ref) \<times> RunGateway" where
  "start_run str_of self uuid_a uuid_b t body =
     (case run_coordinator self of
        Some rc \<Rightarrow> proxied self (adapter_start_run str_of rc body)
      | None \<Rightarrow>
          (let rid = or_str (body_run_id body) (''run_'' @ uuid_a) in
           if rid \<in> dom (runs self) then
             (Inl (ArpServerError ''run_already_exists''
                     (''Run '' @ [CHR 0x27] @ rid @ [CHR 0x27] @ '' already exists'') 409 None),
              self)
           else
             (let root = ''node_run_'' @ uuid_b;
                  run = \<lparr>run_id = rid, state = running, root_node_run_id = root,
                         run_context = body_run_context body, started_at = t,
                         ended_at = None, extensions = body_extensions body\<rparr>;
                  (r, self') = new_object self run
              in (Inr r, self'\<lparr>runs := (runs self')(rid \<mapsto> r)\<rparr>))))"

text \<open>\<open>RunGateway.get_run\<close>.\<close>

definition get_run ::
  "(exn \<Rightarrow> string) \<Rightarrow> RunGateway \<Rightarrow> string \<Rightarrow> (exn + ref) \<times> RunGateway" where
  "get_run str_of self rid =
     (case run_coordinator self of
        Some rc \<Rightarrow> proxied self (adapter_get_run str_of rc rid)
      | None \<Rightarrow> (get_local_run self rid, self))"

text \<open>
  \<open>RunGateway.cancel_run\<close>. \<open>run.model_copy(update=...)\<close> creates a new object that
  differs from \<open>run\<close> in the two attributes given; \<open>t\<close> is what \<open>now()\<close> reads.
\<close>

definition cancel_run ::
  "(exn \<Rightarrow> string) \<Rightarrow> RunGateway \<Rightarrow> datetime \<Rightarrow> string \<Rightarrow> (exn + ref) \<times> RunGateway" where
  "cancel_run str_of self t rid =
     (case run_coordinator self of
        Some rc \<Rightarrow> proxied self (adapter_cancel_run str_of rc rid)
      | None \<Rightarrow>
          (case get_local_run self rid of
             Inl exc \<Rightarrow> (Inl exc, self)
           | Inr run \<Rightarrow>
               if state (deref self run) \<in> {succeeded, failed, canceled} then (Inr run, self)
               else
                 (let (updated, self') =
                        new_object self ((deref self run)\<lparr>state := canceled, ended_at := Some t\<rparr>)
                  in (Inr updated, self'\<lparr>runs := (runs self')(run_id (deref self run) \<mapsto> updated)\<rparr>))))"

text \<open>
  \<open>RunGateway.health\<close>. It has no \<open>raise\<close> of its own and catches every exception of the
  adapter's call; \<open>t\<close> is what \<open>now()\<close> reads. \<open>if downstream_health.checks\<close> is false for
  \<open>None\<close> and for the empty list.
\<close>

definition health :: "(exn \<Rightarrow> string) \<Rightarrow> RunGateway \<Rightarrow> datetime \<Rightarrow> exn + Health" where
  "health str_of self t =
     (case run_coordinator self of
        None \<Rightarrow> Inr \<lparr>status = ok, time = t, checks = None\<rparr>
      | Some rc \<Rightarrow>
          (case adapter_health str_of rc of
             Inl exc \<Rightarrow>
               (let check = \<lparr>check_name = ''run_coordinator'', check_status = down,
                             check_message = Some (str_of exc),
                             check_details = Some [(''url'', PStr (base_url rc))]\<rparr>
                in Inr \<lparr>status = degraded, time = t, checks = Some [check]\<rparr>)
           | Inr downstream_health \<Rightarrow>
               (let check = \<lparr>check_name = ''run_coordinator'',
                             check_status = status downstream_health,
                             check_message = None,
                             check_details =
                               Some [(''url'', PStr (base_url rc)),
                                     (''status'', PStatus (status downstream_health))]\<rparr>;
                    checks0 = [check];
                    checks1 =
                      (case checks downstream_health of
                         None \<Rightarrow> checks0
                       | Some cs \<Rightarrow> if cs = [] then checks0 else checks0 @ cs)
                in Inr \<lparr>status = status downstream_health, time = t, checks = Some checks1\<rparr>)))"

text \<open>
  The checks a report lists, read the way \<open>health\<close> reads a downstream report: a report
  whose \<open>checks\<close> is \<open>None\<close> lists none.
\<close>

definition check_list :: "Health \<Rightarrow> Check list" where
  "check_list h = (case checks h of None \<Rightarrow> [] | Some cs \<Rightarrow> cs)"


subsection \<open>\<open>json.dumps\<close> and \<open>datetime.isoformat\<close>\<close>

text \<open>
  The values \<open>json.dumps\<close> is applied to: \<open>None\<close>, booleans, integers, strings, lists and
  dictionaries with string keys (in insertion order).
\<close>

datatype json =
    JNull
  | JBool bool
  | JInt int
  | JStr string
  | JArr "json list"
  | JObj "(string \<times> json) list"

text \<open>\<open>str(n)\<close> for a natural number and for an integer.\<close>

fun str_nat :: "nat \<Rightarrow> string" where
  "str_nat n =
     (if n < 10 then [''0123456789'' ! n]
      else str_nat (n div 10) @ [''0123456789'' ! (n mod 10)])"

declare str_nat.simps [simp del]

definition str_int :: "int \<Rightarrow> string" where
  "str_int i = (if i < 0 then ''-'' @ str_nat (nat (- i)) else str_nat (nat i))"

text \<open>
  \<open>json.encoder.encode_basestring_ascii\<close>, the string encoder of \<open>json.dumps\<close> with its
  default \<open>ensure_ascii=True\<close>: a character from the space to the tilde stands for itself,
  except the quote and the backslash; every other character is escaped.
\<close>

definition hex_digit :: "nat \<Rightarrow> char" where
  "hex_digit n = ''0123456789abcdef'' ! n"

definition escape_char :: "char \<Rightarrow> string" where
  "escape_char c =
     (if c = CHR 0x5C then [CHR 0x5C, CHR 0x5C]
      else if c = CHR 0x22 then [CHR 0x5C, CHR 0x22]
      else if c = CHR 0x08 then [CHR 0x5C, CHR ''b'']
      else if c = CHR 0x0C then [CHR 0x5C, CHR ''f'']
      else if c = CHR 0x0A then [CHR 0x5C, CHR ''n'']
      else if c = CHR 0x0D then [CHR 0x5C, CHR ''r'']
      else if c = CHR 0x09 then [CHR 0x5C, CHR ''t'']
      else if (32::nat) \<le> of_char c \<and> (of_char c :: nat) \<le> 126 then [c]
      else [CHR 0x5C, CHR ''u'', CHR ''0'', CHR ''0'',
            hex_digit (of_char c div 16), hex_digit (of_char c mod 16)])"

definition escape_ascii :: "string \<Rightarrow> string" where
  "escape_ascii s = concat (map escape_char s)"

definition encode_basestring_ascii :: "string \<Rightarrow> string" where
  "encode_basestring_ascii s = [CHR 0x22] @ escape_ascii s @ [CHR 0x22]"

text \<open>
  \<open>json.dumps\<close> with its default separators: \<open>", "\<close> between items and \<open>": "\<close> after a
  key, everything on one line.
\<close>

fun dumps :: "json \<Rightarrow> string"
  and dumps_items :: "json list \<Rightarrow> string"
  and dumps_members :: "(string \<times> json) list \<Rightarrow> string" where
  "dumps JNull = ''null''"
| "dumps (JBool b) = (if b then ''true'' else ''false'')"
| "dumps (JInt i) = str_int i"
| "dumps (JStr s) = encode_basestring_ascii s"
| "dumps (JArr xs) = ''['' @ dumps_items xs @ '']''"
| "dumps (JObj kvs) = ''{'' @ dumps_members kvs @ ''}''"
| "dumps_items [] = []"
| "dumps_items [x] = dumps x"
| "dumps_items (x # y # ys) = dumps x @ '', '' @ dumps_items (y # ys)"
| "dumps_members [] = []"
| "dumps_members [(k, v)] = encode_basestring_ascii k @ '': '' @ dumps v"
| "dumps_members ((k, v) # kv # kvs) =
     encode_basestring_ascii k @ '': '' @ dumps v @ '', '' @ dumps_members (kv # kvs)"

text \<open>
  \<open>datetime.isoformat()\<close> of a datetime in UTC: \<open>YYYY-MM-DDTHH:MM:SS+00:00\<close>, with
  \<open>.ffffff\<close> after the seconds unless the microseconds are zero.
\<close>

definition zfill :: "nat \<Rightarrow> string \<Rightarrow> string" where
  "zfill w s = replicate (w - length s) (CHR ''0'') @ s"

definition isoformat :: "datetime \<Rightarrow> string" where
  "isoformat d =
     zfill 4 (str_nat (year d)) @ ''-'' @ zfill 2 (str_nat (month d)) @ ''-''
       @ zfill 2 (str_nat (day d)) @ ''T'' @ zfill 2 (str_nat (hour d)) @ '':''
       @ zfill 2 (str_nat (minute d)) @ '':'' @ zfill 2 (str_nat (second d))
       @ (if microsecond d = 0 then [] else ''.'' @ zfill 6 (str_nat (microsecond d)))
       @ ''+00:00''"

text \<open>
  \<open>RunGateway.stream_run_events\<close>; \<open>t\<close> is what \<open>now()\<close> reads. It neither reads nor
  writes \<open>self._runs\<close>.
\<close>

definition payload :: "string \<Rightarrow> datetime \<Rightarrow> json" where
  "payload rid t =
     JObj [(''run_id'', JStr rid),
           (''seq'', JInt 0),
           (''type'', JStr ''run_started''),
           (''time'', JStr (isoformat t)),
           (''data'',
            JObj [(''message'', JStr ''Template Run Gateway does not stream real events yet.'')])]"

definition stream_run_events ::
  "(exn \<Rightarrow> string) \<Rightarrow> RunGateway \<Rightarrow> datetime \<Rightarrow> string \<Rightarrow> exn + string" where
  "stream_run_events str_of self t rid =
     (case run_coordinator self of
        Some rc \<Rightarrow> adapter_stream_run_events str_of rc rid
      | None \<Rightarrow> Inr (dumps (payload rid t) @ [CHR 0x0A]))"


subsection \<open>Reading a line back\<close>

text \<open>
  The gateway only writes the line. To state that the line parses back, a reader of JSON
  text for the values of type \<^typ>\<open>json\<close> follows: the grammar of JSON, without fractions
  and exponents, and with \<open>u\<close> escapes for code points below 256 (the characters a
  \<^typ>\<open>string\<close> holds). It is not part of the sources.
\<close>

definition is_ws :: "char \<Rightarrow> bool" where
  "is_ws c = (c = CHR '' '' \<or> c = CHR 0x09 \<or> c = CHR 0x0A \<or> c = CHR 0x0D)"

definition skip_ws :: "string \<Rightarrow> string" where
  "skip_ws cs = dropWhile is_ws cs"

definition hex_val :: "char \<Rightarrow> nat option" where
  "hex_val c =
     (let n = (of_char c :: nat) in
      if 48 \<le> n \<and> n \<le> 57 then Some (n - 48)
      else if 97 \<le> n \<and> n \<le> 102 then Some (n - 87)
      else if 65 \<le> n \<and> n \<le> 70 then Some (n - 55)
      else None)"

definition hex4 :: "char \<Rightarrow> char \<Rightarrow> char \<Rightarrow> char \<Rightarrow> nat option" where
  "hex4 a b c d =
     (case (hex_val a, hex_val b, hex_val c, hex_val d) of
        (Some x, Some y, Some z, Some w) \<Rightarrow> Some (((x * 16 + y) * 16 + z) * 16 + w)
      | _ \<Rightarrow> None)"

definition unescape :: "char \<Rightarrow> char option" where
  "unescape e =
     (if e = CHR 0x22 then Some (CHR 0x22)
      else if e = CHR 0x5C then Some (CHR 0x5C)
      else if e = CHR ''/'' then Some (CHR ''/'')
      else if e = CHR ''b'' then Some (CHR 0x08)
      else if e = CHR ''f'' then Some (CHR 0x0C)
      else if e = CHR ''n'' then Some (CHR 0x0A)
      else if e = CHR ''r'' then Some (CHR 0x0D)
      else if e = CHR ''t'' then Some (CHR 0x09)
      else None)"

definition cons_fst :: "'a \<Rightarrow> ('a list \<times> 'b) option \<Rightarrow> ('a list \<times> 'b) option" where
  "cons_fst x r = (case r of None \<Rightarrow> None | Some (xs, rest) \<Rightarrow> Some (x # xs, rest))"

text \<open>
  \<open>scan_string\<close> reads the characters of a string after its opening quote, up to and
  including the closing quote, and returns the string and the text that follows.
\<close>

fun scan_string :: "string \<Rightarrow> (string \<times> string) option" where
  "scan_string [] = None"
| "scan_string (c # cs) =
     (if c = CHR 0x22 then Some ([], cs)
      else if c = CHR 0x5C then
        (case cs of
           [] \<Rightarrow> None
         | e # cs1 \<Rightarrow>
             if e = CHR ''u'' then
               (case cs1 of
                  h1 # h2 # h3 # h4 # cs2 \<Rightarrow>
                    (case hex4 h1 h2 h3 h4 of
                       None \<Rightarrow> None
                     | Some n \<Rightarrow>
                         if n < 256 then cons_fst (char_of n) (scan_string cs2) else None)
                | _ \<Rightarrow> None)
             else
               (case unescape e of
                  None \<Rightarrow> None
                | Some ch \<Rightarrow> cons_fst ch (scan_string cs1)))
      else if (of_char c :: nat) < 32 then None
      else cons_fst c (scan_string cs))"

definition is_digit :: "char \<Rightarrow> bool" where
  "is_digit c = ((48::nat) \<le> of_char c \<and> (of_char c :: nat) \<le> 57)"

definition digits_val :: "string \<Rightarrow> nat" where
  "digits_val ds = foldl (\<lambda>a d. 10 * a + (of_char d - 48)) 0 ds"

text \<open>An integer: a zero, or a digit other than zero followed by digits.\<close>

definition scan_nat :: "string \<Rightarrow> (nat \<times> string) option" where
  "scan_nat cs =
     (case cs of
        [] \<Rightarrow> None
      | c # rest \<Rightarrow>
          if c = CHR ''0'' then Some (0, rest)
          else if is_digit c then Some (digits_val (takeWhile is_digit cs), dropWhile is_digit cs)
          else None)"

definition scan_int :: "string \<Rightarrow> (int \<times> string) option" where
  "scan_int cs =
     (case cs of
        [] \<Rightarrow> None
      | c # rest \<Rightarrow>
          if c = CHR ''-'' then
            (case scan_nat rest of None \<Rightarrow> None | Some (n, r) \<Rightarrow> Some (- int n, r))
          else (case scan_nat cs of None \<Rightarrow> None | Some (n, r) \<Rightarrow> Some (int n, r)))"

text \<open>
  The reader proper, by recursive descent. The first argument bounds the number of nested
  calls; \<open>loads\<close> starts it with the length of the text, which no text exhausts, since
  every call reads at least one character before it calls again.
\<close>

fun parse_value :: "nat \<Rightarrow> string \<Rightarrow> (json \<times> string) option"
  and parse_items :: "nat \<Rightarrow> string \<Rightarrow> (json list \<times> string) option"
  and parse_members :: "nat \<Rightarrow> string \<Rightarrow> ((string \<times> json) list \<times> string) option" where
  "parse_value 0 cs = None"
| "parse_value (Suc n) cs =
     (case skip_ws cs of
        [] \<Rightarrow> None
      | c # rest \<Rightarrow>
          if c = CHR 0x22 then
            (case scan_string rest of None \<Rightarrow> None | Some (s, r) \<Rightarrow> Some (JStr s, r))
          else if c = CHR ''{'' then
            (case skip_ws rest of
               [] \<Rightarrow> None
             | c1 # r1 \<Rightarrow>
                 if c1 = CHR ''}'' then Some (JObj [], r1)
                 else (case parse_members n rest of
                         None \<Rightarrow> None
                       | Some (kvs, r) \<Rightarrow> Some (JObj kvs, r)))
          else if c = CHR ''['' then
            (case skip_ws rest of
               [] \<Rightarrow> None
             | c1 # r1 \<Rightarrow>
                 if c1 = CHR '']'' then Some (JArr [], r1)
                 else (case parse_items n rest of
                         None \<Rightarrow> None
                       | Some (xs, r) \<Rightarrow> Some (JArr xs, r)))
          else if take 4 (c # rest) = ''null'' then Some (JNull, drop 4 (c # rest))
          else if take 4 (c # rest) = ''true'' then Some (JBool True, drop 4 (c # rest))
          else if take 5 (c # rest) = ''false'' then Some (JBool False, drop 5 (c # rest))
          else (case scan_int (c # rest) of None \<Rightarrow> None | Some (i, r) \<Rightarrow> Some (JInt i, r)))"
| "parse_items 0 cs = None"
| "parse_items (Suc n) cs =
     (case parse_value n cs of
        None \<Rightarrow> None
      | Some (x, r) \<Rightarrow>
          (case skip_ws r of
             [] \<Rightarrow> None
           | c # r1 \<Rightarrow>
               if c = CHR '','' then cons_fst x (parse_items n r1)
               else if c = CHR '']'' then Some ([x], r1)
               else None))"
| "parse_members 0 cs = None"
| "parse_members (Suc n) cs =
     (case skip_ws cs of
        [] \<Rightarrow> None
      | q # r1 \<Rightarrow>
          if q = CHR 0x22 then
            (case scan_string r1 of
               None \<Rightarrow> None
             | Some (k, r2) \<Rightarrow>
                 (case skip_ws r2 of
                    [] \<Rightarrow> None
                  | colon # r3 \<Rightarrow>
                      if colon = CHR '':'' then
                        (case parse_value n r3 of
                           None \<Rightarrow> None
                         | Some (v, r4) \<Rightarrow>
                             (case skip_ws r4 of
                                [] \<Rightarrow> None
                              | c # r5 \<Rightarrow>
                                  if c = CHR '','' then cons_fst (k, v) (parse_members n r5)
                                  else if c = CHR ''}'' then Some ([(k, v)], r5)
                                  else None))
                      else None))
          else None)"

definition loads :: "string \<Rightarrow> json option" where
  "loads s =
     (case parse_value (length s) s of
        None \<Rightarrow> None
      | Some (v, rest) \<Rightarrow> if skip_ws rest = [] then Some v else None)"


subsection \<open>Construction (\<open>RunGateway.__init__\<close>, \<open>utils.py\<close>)\<close>

text \<open>
  \<open>env\<close> is \<open>os.environ\<close>; \<open>mk_client\<close> is the constructor of the library's
  \<open>RunCoordinatorClient\<close>, which takes the base URL and the bearer token.
\<close>

definition normalize_base_url :: "string \<Rightarrow> string" where
  "normalize_base_url url =
     (let normalized = rev (dropWhile (\<lambda>c. c = CHR ''/'') (rev url)) in
      if drop (length normalized - 3) normalized = ''/v1''
      then take (length normalized - 3) normalized
      else normalized)"

definition run_coordinator_url_from_env :: "(string \<rightharpoonup> string) \<Rightarrow> string option" where
  "run_coordinator_url_from_env env =
     (case env ''ARP_RUN_COORDINATOR_URL'' of
        None \<Rightarrow> None
      | Some url \<Rightarrow> if url = [] then None else Some (normalize_base_url url))"

definition run_coordinator_bearer_token_from_env :: "(string \<rightharpoonup> string) \<Rightarrow> string option" where
  "run_coordinator_bearer_token_from_env env =
     (case env ''ARP_RUN_COORDINATOR_BEARER_TOKEN'' of
        None \<Rightarrow> None
      | Some token \<Rightarrow> if token = [] then None else Some token)"

definition or_opt :: "string option \<Rightarrow> string option \<Rightarrow> string option" where
  "or_opt x y = (case x of None \<Rightarrow> y | Some s \<Rightarrow> if s = [] then y else Some s)"

definition init ::
  "(string \<rightharpoonup> string) \<Rightarrow> (string \<Rightarrow> string option \<Rightarrow> RunCoordinatorClient)
     \<Rightarrow> RunCoordinatorGatewayClient option \<Rightarrow> string option \<Rightarrow> string option
     \<Rightarrow> string \<Rightarrow> string \<Rightarrow> RunGateway" where
  "init env mk_client coordinator run_coordinator_url run_coordinator_bearer_token name version =
     (let self = \<lparr>runs = Map.empty, objects = [], run_coordinator = None,
                  service_name = name, service_version = version\<rparr> in
      case coordinator of
        Some rc \<Rightarrow> self\<lparr>run_coordinator := Some rc\<rparr>
      | None \<Rightarrow>
          (case or_opt run_coordinator_url (run_coordinator_url_from_env env) of
             None \<Rightarrow> self
           | Some resolved_url \<Rightarrow>
               (let url = normalize_base_url resolved_url;
                    token = or_opt run_coordinator_bearer_token
                              (run_coordinator_bearer_token_from_env env)
                in self\<lparr>run_coordinator :=
                          Some \<lparr>base_url = url, client = mk_client url token\<rparr>\<rparr>)))"


subsection \<open>The registry invariant\<close>

text \<open>
  What every registry built by the gateway satisfies: a key is never the empty string, it
  refers to an object of the store, and that object carries the key as its \<open>run_id\<close>.
\<close>

definition registry_ok :: "RunGateway \<Rightarrow> bool" where
  "registry_ok self =
     (\<forall>k r. runs self k = Some r \<longrightarrow>
        k \<noteq> [] \<and> r < length (objects self) \<and> run_id (deref self r) = k)"

text \<open>
  The calls that can change a gateway, each with the values it draws from its
  environment, and the state a gateway is in after a sequence of them. (\<open>health\<close>,
  \<open>version\<close> and \<open>stream_run_events\<close> do not write to \<open>self\<close>.)
\<close>

datatype api_call =
    StartRun string string datetime RunStartRequest
  | GetRun string
  | CancelRun datetime string

fun after_call :: "(exn \<Rightarrow> string) \<Rightarrow> RunGateway \<Rightarrow> api_call \<Rightarrow> RunGateway" where
  "after_call str_of self (StartRun uuid_a uuid_b t body) =
     snd (start_run str_of self uuid_a uuid_b t body)"
| "after_call str_of self (GetRun rid) = snd (get_run str_of self rid)"
| "after_call str_of self (CancelRun t rid) = snd (cancel_run str_of self t rid)"

definition after_calls :: "(exn \<Rightarrow> string) \<Rightarrow> RunGateway \<Rightarrow> api_call list \<Rightarrow> RunGateway" where
  "after_calls str_of self calls = foldl (after_call str_of) self calls"



section \<open>Example values\<close>

text \<open>
  Concrete values at which the theorems below are instantiated. \<open>example_str\<close> is one
  possible \<open>str\<close>: the message of an ARP error, the description of any other exception.
\<close>

definition example_str :: "exn \<Rightarrow> string" where
  "example_str e =
     (case e of
        ArpApiError c m sc d \<Rightarrow> m
      | ArpServerError c m sc d \<Rightarrow> m
      | OtherException s \<Rightarrow> s)"

definition example_time :: datetime where
  "example_time =
     \<lparr>year = 2026, month = 1, day = 2, hour = 3, minute = 4, second = 5, microsecond = 0\<rparr>"

definition example_body :: RunStartRequest where
  "example_body =
     \<lparr>body_run_id = Some ''run_1'',
      body_root_node_type_ref =
        PDict [(''node_type_id'', PStr ''composite.echo''), (''version'', PStr ''0.1.0'')],
      body_input = PDict [(''prompt'', PStr ''hi'')],
      body_run_context = None,
      body_extensions = Some (PDict [(''tenant'', PStr ''a'')])\<rparr>"

definition example_run :: "string \<Rightarrow> RunState \<Rightarrow> Run" where
  "example_run rid st =
     \<lparr>run_id = rid, state = st, root_node_run_id = ''node_run_0'', run_context = None,
      started_at = example_time,
      ended_at = (if st = running then None else Some example_time),
      extensions = None\<rparr>"

text \<open>A gateway without a coordinator: its registry is empty, or holds two runs.\<close>

definition empty_local :: RunGateway where
  "empty_local =
     \<lparr>runs = Map.empty, objects = [], run_coordinator = None,
      service_name = ''arp-template-run-gateway'', service_version = ''0.1.0''\<rparr>"

definition example_local :: RunGateway where
  "example_local =
     \<lparr>runs = [''run_1'' \<mapsto> 0, ''run_2'' \<mapsto> 1],
      objects = [example_run ''run_1'' running, example_run ''run_2'' succeeded],
      run_coordinator = None,
      service_name = ''arp-template-run-gateway'', service_version = ''0.1.0''\<rparr>"

text \<open>
  Three coordinators: one that cannot be reached, one that reports \<open>degraded\<close> with a
  check of its own, and one whose API errors carry the status code 0.
\<close>

definition unreachable_client :: RunCoordinatorClient where
  "unreachable_client =
     \<lparr>client_cancel_run = (\<lambda>_. Inl (OtherException ''connection refused'')),
      client_get_run = (\<lambda>_. Inl (OtherException ''connection refused'')),
      client_health = (\<lambda>_. Inl (OtherException ''connection refused'')),
      client_start_run = (\<lambda>_. Inl (OtherException ''connection refused'')),
      client_stream_run_events = (\<lambda>_. Inl (OtherException ''connection refused''))\<rparr>"

definition degraded_client :: RunCoordinatorClient where
  "degraded_client =
     \<lparr>client_cancel_run = (\<lambda>rid. Inr (example_run rid canceled)),
      client_get_run = (\<lambda>rid. Inr (example_run rid running)),
      client_health =
        (\<lambda>_. Inr \<lparr>status = degraded, time = example_time,
                   checks = Some [\<lparr>check_name = ''db'', check_status = down,
                                   check_message = None, check_details = None\<rparr>]\<rparr>),
      client_start_run = (\<lambda>body. Inr (example_run ''run_1'' running)),
      client_stream_run_events = (\<lambda>_. Inr [])\<rparr>"

definition zero_status_client :: RunCoordinatorClient where
  "zero_status_client =
     \<lparr>client_cancel_run = (\<lambda>_. Inl (ArpApiError ''upstream_error'' ''no response'' (Some 0) None)),
      client_get_run = (\<lambda>_. Inl (ArpApiError ''upstream_error'' ''no response'' (Some 0) None)),
      client_health = (\<lambda>_. Inl (ArpApiError ''upstream_error'' ''no response'' (Some 0) None)),
      client_start_run = (\<lambda>_. Inl (ArpApiError ''upstream_error'' ''no response'' (Some 0) None)),
      client_stream_run_events =
        (\<lambda>_. Inl (ArpApiError ''upstream_error'' ''no response'' (Some 0) None))\<rparr>"

definition adapter_to :: "RunCoordinatorClient \<Rightarrow> RunCoordinatorGatewayClient" where
  "adapter_to c = \<lparr>base_url = ''http://coordinator.test'', client = c\<rparr>"

definition proxy_to :: "RunCoordinatorClient \<Rightarrow> RunGateway" where
  "proxy_to c = empty_local\<lparr>run_coordinator := Some (adapter_to c)\<rparr>"

section \<open>The registry invariant holds in every state of a gateway\<close>

text \<open>
  The invariant holds after construction and is kept by every call, in either mode; so it
  holds after any sequence of calls.
\<close>

lemmas gateway_defs =
  start_run_def get_run_def cancel_run_def get_local_run_def new_object_def deref_def
  proxied_def

lemma registry_ok_init:
  "registry_ok (init env mk_client coordinator url token name version)"
  by (auto simp: init_def registry_ok_def Let_def split: option.splits)

lemma registry_ok_new_object:
  assumes "registry_ok g"
  shows "registry_ok (snd (new_object g x))"
  unfolding registry_ok_def
proof (intro allI impI)
  fix k r
  assume "runs (snd (new_object g x)) k = Some r"
  then have "runs g k = Some r"
    by (simp add: new_object_def)
  with assms have "k \<noteq> []" "r < length (objects g)" "run_id (objects g ! r) = k"
    by (auto simp: registry_ok_def deref_def)
  then show "k \<noteq> [] \<and> r < length (objects (snd (new_object g x)))
      \<and> run_id (deref (snd (new_object g x)) r) = k"
    by (simp add: new_object_def deref_def nth_append)
qed

lemma registry_ok_store:
  assumes "registry_ok g" and "k \<noteq> []" and "run_id x = k"
  shows "registry_ok
           ((snd (new_object g x))
              \<lparr>runs := (runs (snd (new_object g x)))(k \<mapsto> fst (new_object g x))\<rparr>)"
  unfolding registry_ok_def
proof (intro allI impI)
  fix k' r
  let ?g = "(snd (new_object g x))
              \<lparr>runs := (runs (snd (new_object g x)))(k \<mapsto> fst (new_object g x))\<rparr>"
  assume h: "runs ?g k' = Some r"
  show "k' \<noteq> [] \<and> r < length (objects ?g) \<and> run_id (deref ?g r) = k'"
  proof (cases "k' = k")
    case True
    with h have "r = length (objects g)"
      by (simp add: new_object_def)
    with True assms(2,3) show ?thesis
      by (simp add: new_object_def deref_def)
  next
    case False
    with h have "runs g k' = Some r"
      by (simp add: new_object_def)
    with assms(1) have "k' \<noteq> []" "r < length (objects g)" "run_id (objects g ! r) = k'"
      by (auto simp: registry_ok_def deref_def)
    then show ?thesis
      by (simp add: new_object_def deref_def nth_append)
  qed
qed

lemma registry_ok_proxied: "registry_ok g \<Longrightarrow> registry_ok (snd (proxied g outcome))"
  using registry_ok_new_object [of g]
  by (auto simp: proxied_def split: sum.splits prod.splits) (metis snd_conv)

lemma registry_ok_start_run:
  assumes "registry_ok g"
  shows "registry_ok (snd (start_run str_of g ua ub t body))"
proof (cases "run_coordinator g")
  case (Some rc)
  with assms show ?thesis
    by (simp add: start_run_def registry_ok_proxied)
next
  case None
  let ?rid = "or_str (body_run_id body) (''run_'' @ ua)"
  have ne: "?rid \<noteq> []"
    by (simp add: or_str_def split: option.splits)
  show ?thesis
  proof (cases "?rid \<in> dom (runs g)")
    case True
    with None assms show ?thesis
      by (simp add: start_run_def)
  next
    case False
    with None show ?thesis
      using registry_ok_store [OF assms ne,
          of "\<lparr>run_id = ?rid, state = running, root_node_run_id = ''node_run_'' @ ub,
               run_context = body_run_context body, started_at = t,
               ended_at = None, extensions = body_extensions body\<rparr>"]
      by (simp add: start_run_def Let_def split: prod.splits) (simp add: new_object_def)
  qed
qed

lemma registry_ok_get_run: "registry_ok g \<Longrightarrow> registry_ok (snd (get_run str_of g rid))"
  by (simp add: get_run_def registry_ok_proxied split: option.splits)

lemma registry_ok_cancel_run:
  assumes "registry_ok g"
  shows "registry_ok (snd (cancel_run str_of g t rid))"
proof (cases "run_coordinator g")
  case (Some rc)
  with assms show ?thesis
    by (simp add: cancel_run_def registry_ok_proxied)
next
  case None
  show ?thesis
  proof (cases "runs g rid")
    case absent: None
    with None assms show ?thesis
      by (simp add: cancel_run_def get_local_run_def)
  next
    case (Some r)
    with assms have k: "rid \<noteq> []" "run_id (deref g r) = rid"
      by (auto simp: registry_ok_def)
    show ?thesis
      using None Some k assms
        registry_ok_store [OF assms k(1),
          of "(deref g r)\<lparr>state := canceled, ended_at := Some t\<rparr>"]
      by (simp add: cancel_run_def get_local_run_def Let_def split: prod.splits)
         (simp add: new_object_def)
  qed
qed

lemma registry_ok_after_call: "registry_ok g \<Longrightarrow> registry_ok (after_call str_of g c)"
  by (cases c) (simp_all add: registry_ok_start_run registry_ok_get_run registry_ok_cancel_run)

lemma registry_ok_after_calls:
  "registry_ok g \<Longrightarrow> registry_ok (after_calls str_of g calls)"
  unfolding after_calls_def
  by (induction calls arbitrary: g) (simp_all add: registry_ok_after_call)

lemma registry_ok_reachable:
  "registry_ok
     (after_calls str_of (init env mk_client coordinator url token name version) calls)"
  by (rule registry_ok_after_calls [OF registry_ok_init])

text \<open>The store only grows: no call changes or removes an object that exists.\<close>

lemma objects_after_call: "\<exists>new. objects (after_call str_of g c) = objects g @ new"
  by (cases c)
     (auto simp: gateway_defs Let_def split: option.splits sum.splits if_splits)

lemma registry_ok_empty_local: "registry_ok empty_local"
  by (simp add: registry_ok_def empty_local_def)

lemma registry_ok_example_local: "registry_ok example_local"
  by (auto simp: registry_ok_def example_local_def example_run_def deref_def
      split: if_splits)


section \<open>The local registry\<close>

text \<open>
  C7. In local mode, \<open>get_run\<close> and \<open>cancel_run\<close> fail with the code \<open>run_not_found\<close> and
  the status 404 exactly when the requested identifier is absent from the registry; when
  it is present, the lookup returns the stored record (the reference the registry holds),
  \<open>get_run\<close> returns it and \<open>cancel_run\<close> returns a record.
\<close>

theorem local_lookup_not_found_iff_absent:
  assumes "run_coordinator g = None"
  shows "((\<exists>m d. fst (get_run str_of g rid) = Inl (ArpServerError ''run_not_found'' m 404 d))
            \<longleftrightarrow> runs g rid = None)
       \<and> ((\<exists>m d. fst (cancel_run str_of g t rid) = Inl (ArpServerError ''run_not_found'' m 404 d))
            \<longleftrightarrow> runs g rid = None)
       \<and> (\<forall>r. runs g rid = Some r \<longrightarrow>
             get_local_run g rid = Inr r \<and> get_run str_of g rid = (Inr r, g)
             \<and> (\<exists>r'. fst (cancel_run str_of g t rid) = Inr r'))"
  using assms by (auto simp: gateway_defs split: option.splits)

theorem local_lookup_not_found_iff_absent_witness:
  "run_coordinator example_local = None
   \<and> runs example_local ''run_9'' = None
   \<and> fst (get_run example_str example_local ''run_9'')
       = Inl (ArpServerError ''run_not_found'' ''Run 'run_9' not found'' 404 None)
   \<and> runs example_local ''run_2'' = Some 1
   \<and> get_run example_str example_local ''run_2'' = (Inr 1, example_local)
   \<and> deref example_local 1 = example_run ''run_2'' succeeded"
proof -
  have h: "run_coordinator example_local = None"
    by (simp add: example_local_def)
  have a: "runs example_local ''run_9'' = None" and p: "runs example_local ''run_2'' = Some 1"
    by (simp_all add: example_local_def)
  from local_lookup_not_found_iff_absent [OF h, of example_str "''run_9''" example_time] a
  obtain m d where
    "fst (get_run example_str example_local ''run_9'') = Inl (ArpServerError ''run_not_found'' m 404 d)"
    by blast
  moreover from local_lookup_not_found_iff_absent [OF h, of example_str "''run_2''" example_time] p
  have "get_run example_str example_local ''run_2'' = (Inr 1, example_local)"
    by blast
  ultimately show ?thesis
    using h a p
    by (simp add: get_run_def get_local_run_def) (simp add: example_local_def deref_def)
qed

text \<open>
  C10. In local mode, whenever \<open>start_run\<close>, \<open>get_run\<close> or \<open>cancel_run\<close> raises, the
  gateway is left exactly as it was before the call: the registry and every stored record.
  In particular a \<open>start_run\<close> that fails on a duplicate identifier does not replace or
  modify the record already stored.
\<close>

theorem local_errors_leave_state_unchanged:
  assumes "run_coordinator g = None"
  shows "(start_run str_of g ua ub t body = (Inl e, g') \<longrightarrow> g' = g)
       \<and> (get_run str_of g rid = (Inl e, g') \<longrightarrow> g' = g)
       \<and> (cancel_run str_of g t rid = (Inl e, g') \<longrightarrow> g' = g)"
  using assms by (auto simp: gateway_defs Let_def split: option.splits if_splits)

theorem local_errors_leave_state_unchanged_witness:
  "run_coordinator example_local = None
   \<and> fst (start_run example_str example_local ''a'' ''b'' example_time example_body)
       = Inl (ArpServerError ''run_already_exists'' ''Run 'run_1' already exists'' 409 None)
   \<and> snd (start_run example_str example_local ''a'' ''b'' example_time example_body)
       = example_local
   \<and> runs example_local ''run_1'' = Some 0
   \<and> deref example_local 0 = example_run ''run_1'' running"
proof -
  have h: "run_coordinator example_local = None"
    by (simp add: example_local_def)
  have f: "fst (start_run example_str example_local ''a'' ''b'' example_time example_body)
       = Inl (ArpServerError ''run_already_exists'' ''Run 'run_1' already exists'' 409 None)"
    by (simp add: start_run_def example_local_def example_body_def or_str_def Let_def)
  then have "start_run example_str example_local ''a'' ''b'' example_time example_body
       = (Inl (ArpServerError ''run_already_exists'' ''Run 'run_1' already exists'' 409 None),
          snd (start_run example_str example_local ''a'' ''b'' example_time example_body))"
    by (metis prod.collapse)
  with local_errors_leave_state_unchanged [OF h]
  have "snd (start_run example_str example_local ''a'' ''b'' example_time example_body)
       = example_local"
    by blast
  then have s: "snd (start_run example_str example_local ''a'' ''b'' example_time example_body)
       = example_local" .
  have r: "runs example_local ''run_1'' = Some 0"
    and d: "deref example_local 0 = example_run ''run_1'' running"
    by (simp_all add: example_local_def deref_def)
  show ?thesis
    by (intro conjI h f s r d)
qed

text \<open>
  C5. In local mode, a start request whose identifier (the one the caller supplied or,
  without one, the synthesized \<open>run_\<close> identifier) is not in the registry yields a new
  \<open>Run\<close> with that \<open>run_id\<close>, the state \<open>running\<close>, \<open>started_at\<close> set to the time read,
  no \<open>ended_at\<close>, and the request's \<open>run_context\<close> and \<open>extensions\<close>. The registry maps
  the identifier to that very record, every other entry and record is as before, and a
  \<open>get_run\<close> with the identifier that follows returns the same record.
\<close>

theorem start_run_local_creates_and_stores:
  assumes "run_coordinator g = None"
    and "rid = or_str (body_run_id body) (''run_'' @ ua)"
    and "rid \<notin> dom (runs g)"
    and "run = \<lparr>run_id = rid, state = running, root_node_run_id = ''node_run_'' @ ub,
                 run_context = body_run_context body, started_at = t, ended_at = None,
                 extensions = body_extensions body\<rparr>"
    and "g' = g\<lparr>runs := (runs g)(rid \<mapsto> length (objects g)), objects := objects g @ [run]\<rparr>"
  shows "start_run str_of g ua ub t body = (Inr (length (objects g)), g')
       \<and> deref g' (length (objects g)) = run
       \<and> runs g' rid = Some (length (objects g))
       \<and> get_run str_of g' rid = (Inr (length (objects g)), g')"
proof -
  from assms(1,3) have "start_run str_of g ua ub t body = (Inr (length (objects g)), g')"
    unfolding assms(2,4,5) by (simp add: start_run_def new_object_def Let_def)
  moreover have "deref g' (length (objects g)) = run"
    unfolding assms(5) by (simp add: deref_def)
  moreover have "runs g' rid = Some (length (objects g))"
    unfolding assms(5) by simp
  moreover from assms(1) have "get_run str_of g' rid = (Inr (length (objects g)), g')"
    unfolding assms(5) by (simp add: get_run_def get_local_run_def)
  ultimately show ?thesis
    by blast
qed

theorem start_run_local_creates_and_stores_witness:
  "run_coordinator empty_local = None
   \<and> ''run_1'' = or_str (body_run_id example_body) (''run_'' @ ''a'')
   \<and> ''run_1'' \<notin> dom (runs empty_local)
   \<and> start_run example_str empty_local ''a'' ''b'' example_time example_body
       = (Inr 0,
          empty_local
            \<lparr>runs := [''run_1'' \<mapsto> 0],
             objects := [\<lparr>run_id = ''run_1'', state = running, root_node_run_id = ''node_run_b'',
                          run_context = None, started_at = example_time, ended_at = None,
                          extensions = Some (PDict [(''tenant'', PStr ''a'')])\<rparr>]\<rparr>)
   \<and> get_run example_str
         (snd (start_run example_str empty_local ''a'' ''b'' example_time example_body)) ''run_1''
       = (Inr 0, snd (start_run example_str empty_local ''a'' ''b'' example_time example_body))"
proof -
  have h1: "run_coordinator empty_local = None"
    by (simp add: empty_local_def)
  have h2: "''run_1'' = or_str (body_run_id example_body) (''run_'' @ ''a'')"
    by (simp add: example_body_def or_str_def)
  have h3: "''run_1'' \<notin> dom (runs empty_local)"
    by (simp add: empty_local_def)
  note inst = start_run_local_creates_and_stores
         [OF h1 h2 h3 refl refl, where str_of = example_str and ub = "''b''" and t = example_time]
  from inst have c1: "start_run example_str empty_local ''a'' ''b'' example_time example_body
       = (Inr 0,
          empty_local
            \<lparr>runs := [''run_1'' \<mapsto> 0],
             objects := [\<lparr>run_id = ''run_1'', state = running, root_node_run_id = ''node_run_b'',
                          run_context = None, started_at = example_time, ended_at = None,
                          extensions = Some (PDict [(''tenant'', PStr ''a'')])\<rparr>]\<rparr>)"
    by (simp add: empty_local_def example_body_def)
  from inst have c2: "get_run example_str
         (snd (start_run example_str empty_local ''a'' ''b'' example_time example_body)) ''run_1''
       = (Inr 0, snd (start_run example_str empty_local ''a'' ''b'' example_time example_body))"
    by (simp add: empty_local_def)
  show ?thesis
    by (intro conjI h1 h2 h3 c1 c2)
qed

text \<open>
  C6. In local mode, a start request that supplies an identifier already present in the
  registry fails with the code \<open>run_already_exists\<close> and the status 409. The check is made
  in local mode only: with a coordinator configured, the outcome of \<open>start_run\<close> is the
  outcome of the adapter's call alone, and the registry is neither read nor changed.
\<close>

theorem start_run_collision_check_local_only:
  "(run_coordinator g = None \<and> registry_ok g \<and> body_run_id body = Some rid
      \<and> rid \<in> dom (runs g) \<longrightarrow>
      start_run str_of g ua ub t body =
        (Inl (ArpServerError ''run_already_exists''
                (''Run '' @ [CHR 0x27] @ rid @ [CHR 0x27] @ '' already exists'') 409 None), g))
 \<and> (run_coordinator g = Some rc \<longrightarrow>
      fst (start_run str_of g ua ub t body) =
        (case adapter_start_run str_of rc body of
           Inl exc \<Rightarrow> Inl exc
         | Inr run \<Rightarrow> Inr (length (objects g)))
      \<and> runs (snd (start_run str_of g ua ub t body)) = runs g
      \<and> fst (start_run str_of (g\<lparr>runs := m\<rparr>) ua ub t body) = fst (start_run str_of g ua ub t body))"
proof (intro conjI impI)
  assume a: "run_coordinator g = None \<and> registry_ok g \<and> body_run_id body = Some rid
      \<and> rid \<in> dom (runs g)"
  then have "rid \<noteq> []"
    by (auto simp: registry_ok_def)
  with a have "or_str (body_run_id body) (''run_'' @ ua) = rid"
    by (simp add: or_str_def)
  with a show "start_run str_of g ua ub t body =
        (Inl (ArpServerError ''run_already_exists''
                (''Run '' @ [CHR 0x27] @ rid @ [CHR 0x27] @ '' already exists'') 409 None), g)"
    by (simp add: start_run_def)
next
  assume "run_coordinator g = Some rc"
  then show "fst (start_run str_of g ua ub t body) =
        (case adapter_start_run str_of rc body of
           Inl exc \<Rightarrow> Inl exc
         | Inr run \<Rightarrow> Inr (length (objects g)))"
    by (simp add: gateway_defs split: sum.splits)
next
  assume "run_coordinator g = Some rc"
  then show "runs (snd (start_run str_of g ua ub t body)) = runs g"
    by (simp add: gateway_defs split: sum.splits)
next
  assume "run_coordinator g = Some rc"
  then show "fst (start_run str_of (g\<lparr>runs := m\<rparr>) ua ub t body)
      = fst (start_run str_of g ua ub t body)"
    by (simp add: gateway_defs split: sum.splits)
qed

theorem start_run_collision_check_local_only_witness:
  "run_coordinator example_local = None \<and> registry_ok example_local
   \<and> body_run_id example_body = Some ''run_1'' \<and> ''run_1'' \<in> dom (runs example_local)
   \<and> start_run example_str example_local ''a'' ''b'' example_time example_body
       = (Inl (ArpServerError ''run_already_exists'' ''Run 'run_1' already exists'' 409 None),
          example_local)
   \<and> run_coordinator (proxy_to degraded_client\<lparr>runs := [''run_1'' \<mapsto> 0]\<rparr>)
       = Some (adapter_to degraded_client)
   \<and> fst (start_run example_str (proxy_to degraded_client\<lparr>runs := [''run_1'' \<mapsto> 0]\<rparr>)
            ''a'' ''b'' example_time example_body) = Inr 0"
proof -
  have h: "run_coordinator example_local = None \<and> registry_ok example_local
      \<and> body_run_id example_body = Some ''run_1'' \<and> ''run_1'' \<in> dom (runs example_local)"
    using registry_ok_example_local by (simp add: example_local_def example_body_def)
  have p: "run_coordinator (proxy_to degraded_client\<lparr>runs := [''run_1'' \<mapsto> 0]\<rparr>)
      = Some (adapter_to degraded_client)"
    by (simp add: proxy_to_def empty_local_def)
  have a: "adapter_start_run example_str (adapter_to degraded_client) example_body
      = Inr (example_run ''run_1'' running)"
    by (simp add: adapter_start_run_def call_def adapter_to_def degraded_client_def)
  have o: "objects (proxy_to degraded_client\<lparr>runs := [''run_1'' \<mapsto> 0]\<rparr>) = []"
    by (simp add: proxy_to_def empty_local_def)
  from start_run_collision_check_local_only
         [where g = example_local and body = example_body and rid = "''run_1''"
            and str_of = example_str and ua = "''a''" and ub = "''b''" and t = example_time]
       start_run_collision_check_local_only
         [where g = "proxy_to degraded_client\<lparr>runs := [''run_1'' \<mapsto> 0]\<rparr>"
            and rc = "adapter_to degraded_client" and body = example_body
            and str_of = example_str and ua = "''a''" and ub = "''b''" and t = example_time]
       h p a o
  have c: "start_run example_str example_local ''a'' ''b'' example_time example_body
       = (Inl (ArpServerError ''run_already_exists'' ''Run 'run_1' already exists'' 409 None),
          example_local)"
    and d: "fst (start_run example_str (proxy_to degraded_client\<lparr>runs := [''run_1'' \<mapsto> 0]\<rparr>)
            ''a'' ''b'' example_time example_body) = Inr 0"
    by simp_all
  from h show ?thesis
    by (intro conjI p c d) simp_all
qed

text \<open>
  C2. In local mode, for a \<open>run_id\<close> present in the registry: if the stored run is
  terminal (\<open>succeeded\<close>, \<open>failed\<close> or \<open>canceled\<close>), \<open>cancel_run\<close> returns the stored record
  and changes nothing, so \<open>ended_at\<close> is not set a second time; if the stored run is
  \<open>running\<close>, \<open>cancel_run\<close> returns a new record that equals the old one except for
  \<open>state = canceled\<close> and \<open>ended_at\<close> set to the time read, the registry entry is replaced
  by the new record, and the old record is not written to: the old reference still shows
  \<open>state = running\<close>.
\<close>

theorem cancel_run_local_construct_and_replace:
  assumes "run_coordinator g = None" and "registry_ok g" and "runs g rid = Some r"
    and "updated = (deref g r)\<lparr>state := canceled, ended_at := Some t\<rparr>"
    and "g' = g\<lparr>runs := (runs g)(rid \<mapsto> length (objects g)), objects := objects g @ [updated]\<rparr>"
  shows "(state (deref g r) \<in> {succeeded, failed, canceled} \<longrightarrow>
            cancel_run str_of g t rid = (Inr r, g))
       \<and> (state (deref g r) = running \<longrightarrow>
            cancel_run str_of g t rid = (Inr (length (objects g)), g')
            \<and> deref g' (length (objects g)) = updated
            \<and> state updated = canceled \<and> ended_at updated = Some t
            \<and> run_id updated = run_id (deref g r)
            \<and> root_node_run_id updated = root_node_run_id (deref g r)
            \<and> run_context updated = run_context (deref g r)
            \<and> started_at updated = started_at (deref g r)
            \<and> extensions updated = extensions (deref g r)
            \<and> runs g' rid = Some (length (objects g))
            \<and> length (objects g) \<noteq> r
            \<and> deref g' r = deref g r
            \<and> state (deref g' r) = running)"
proof -
  from assms(2,3) have a: "r < length (objects g)" and b: "run_id (objects g ! r) = rid"
    by (auto simp: registry_ok_def deref_def)
  from assms(1,3) have terminal: "state (deref g r) \<in> {succeeded, failed, canceled} \<longrightarrow>
      cancel_run str_of g t rid = (Inr r, g)"
    by (simp add: cancel_run_def get_local_run_def)
  from assms(1,3) b
  have run: "state (deref g r) = running \<longrightarrow>
      cancel_run str_of g t rid = (Inr (length (objects g)), g')"
    unfolding assms(4,5) by (simp add: cancel_run_def get_local_run_def new_object_def deref_def)
  have new: "deref g' (length (objects g)) = updated" "runs g' rid = Some (length (objects g))"
    unfolding assms(5) by (simp_all add: deref_def)
  from a have old: "length (objects g) \<noteq> r" "deref g' r = deref g r"
    unfolding assms(5) by (simp_all add: deref_def nth_append)
  have fields: "state updated = canceled" "ended_at updated = Some t"
    "run_id updated = run_id (deref g r)"
    "root_node_run_id updated = root_node_run_id (deref g r)"
    "run_context updated = run_context (deref g r)"
    "started_at updated = started_at (deref g r)"
    "extensions updated = extensions (deref g r)"
    unfolding assms(4) by simp_all
  from terminal run new old fields show ?thesis
    by simp
qed

theorem cancel_run_local_construct_and_replace_witness:
  "run_coordinator example_local = None \<and> registry_ok example_local
   \<and> runs example_local ''run_2'' = Some 1
   \<and> state (deref example_local 1) = succeeded
   \<and> cancel_run example_str example_local example_time ''run_2'' = (Inr 1, example_local)
   \<and> runs example_local ''run_1'' = Some 0
   \<and> state (deref example_local 0) = running
   \<and> fst (cancel_run example_str example_local example_time ''run_1'') = Inr 2
   \<and> deref (snd (cancel_run example_str example_local example_time ''run_1'')) 2
       = (example_run ''run_1'' running)\<lparr>state := canceled, ended_at := Some example_time\<rparr>
   \<and> runs (snd (cancel_run example_str example_local example_time ''run_1'')) ''run_1'' = Some 2
   \<and> state (deref (snd (cancel_run example_str example_local example_time ''run_1'')) 0) = running"
proof -
  have h1: "run_coordinator example_local = None"
    by (simp add: example_local_def)
  have r2: "runs example_local ''run_2'' = Some 1" and r1: "runs example_local ''run_1'' = Some 0"
    by (simp_all add: example_local_def)
  have s2: "state (deref example_local 1) = succeeded"
    and s1: "state (deref example_local 0) = running"
    and d1: "deref example_local 0 = example_run ''run_1'' running"
    and l: "length (objects example_local) = 2"
    by (simp_all add: example_local_def deref_def example_run_def)
  from cancel_run_local_construct_and_replace
         [OF h1 registry_ok_example_local r2 refl refl,
          where t = example_time and str_of = example_str] s2
  have t: "cancel_run example_str example_local example_time ''run_2'' = (Inr 1, example_local)"
    by simp
  from cancel_run_local_construct_and_replace
         [OF h1 registry_ok_example_local r1 refl refl,
          where t = example_time and str_of = example_str] s1
  have c: "cancel_run example_str example_local example_time ''run_1'' =
          (Inr (length (objects example_local)),
           example_local
             \<lparr>runs := (runs example_local)(''run_1'' \<mapsto> length (objects example_local)),
              objects := objects example_local
                 @ [(deref example_local 0)\<lparr>state := canceled, ended_at := Some example_time\<rparr>]\<rparr>)"
    by blast
  have e1: "fst (cancel_run example_str example_local example_time ''run_1'') = Inr 2"
    unfolding c by (simp add: l)
  have e2: "deref (snd (cancel_run example_str example_local example_time ''run_1'')) 2
       = (example_run ''run_1'' running)\<lparr>state := canceled, ended_at := Some example_time\<rparr>"
    unfolding c by (simp add: deref_def example_local_def)
  have e3: "runs (snd (cancel_run example_str example_local example_time ''run_1'')) ''run_1''
       = Some 2"
    unfolding c by (simp add: l)
  have e4: "state (deref (snd (cancel_run example_str example_local example_time ''run_1'')) 0)
       = running"
    unfolding c by (simp add: deref_def example_local_def example_run_def)
  show ?thesis
    by (intro conjI h1 registry_ok_example_local r2 s2 t r1 s1 e1 e2 e3 e4)
qed


section \<open>Health aggregation\<close>

text \<open>
  C8. With no coordinator configured, every call of \<open>health\<close> returns a report with the
  status \<open>ok\<close>, the time read by the call, and no checks.
\<close>

theorem health_local_ok_without_checks:
  "run_coordinator g = None \<longrightarrow>
     (\<exists>h. health str_of g t = Inr h \<and> status h = ok \<and> time h = t
          \<and> checks h = None \<and> check_list h = [])"
  by (simp add: health_def check_list_def)

theorem health_local_ok_without_checks_witness:
  "run_coordinator example_local = None
   \<and> health example_str example_local example_time
       = Inr \<lparr>status = ok, time = example_time, checks = None\<rparr>"
proof -
  have h: "run_coordinator example_local = None"
    by (simp add: example_local_def)
  from health_local_ok_without_checks [where g = example_local and str_of = example_str
         and t = example_time] h
  obtain r where "health example_str example_local example_time = Inr r"
    and "status r = ok" and "time r = example_time" and "checks r = None"
    by blast
  then have "health example_str example_local example_time
       = Inr \<lparr>status = ok, time = example_time, checks = None\<rparr>"
    by (cases r) simp
  with h show ?thesis
    by (intro conjI)
qed

text \<open>
  C3. With a coordinator configured, whatever exception the adapter's health call raises,
  \<open>health\<close> returns (it does not raise) a report with the status \<open>degraded\<close> and exactly
  one check: it is named \<open>run_coordinator\<close>, has the status \<open>down\<close>, the string of the
  exception as its message, and as its details the map that holds the coordinator's URL.
\<close>

theorem health_degraded_on_adapter_fault:
  assumes "run_coordinator g = Some rc" and "adapter_health str_of rc = Inl exc"
  shows "health str_of g t =
     Inr \<lparr>status = degraded, time = t,
          checks = Some [\<lparr>check_name = ''run_coordinator'', check_status = down,
                           check_message = Some (str_of exc),
                           check_details = Some [(''url'', PStr (base_url rc))]\<rparr>]\<rparr>"
  using assms by (simp add: health_def)

theorem health_degraded_on_adapter_fault_witness:
  "run_coordinator (proxy_to unreachable_client) = Some (adapter_to unreachable_client)
   \<and> adapter_health example_str (adapter_to unreachable_client)
       = Inl (ArpServerError ''run_coordinator_unavailable'' ''Run Coordinator request failed'' 502
                (Some (PDict [(''run_coordinator_url'', PStr ''http://coordinator.test''),
                              (''error'', PStr ''connection refused'')])))
   \<and> health example_str (proxy_to unreachable_client) example_time =
       Inr \<lparr>status = degraded, time = example_time,
            checks = Some [\<lparr>check_name = ''run_coordinator'', check_status = down,
                             check_message = Some ''Run Coordinator request failed'',
                             check_details = Some [(''url'', PStr ''http://coordinator.test'')]\<rparr>]\<rparr>"
proof -
  have h1: "run_coordinator (proxy_to unreachable_client) = Some (adapter_to unreachable_client)"
    by (simp add: proxy_to_def empty_local_def)
  have h2: "adapter_health example_str (adapter_to unreachable_client)
       = Inl (ArpServerError ''run_coordinator_unavailable'' ''Run Coordinator request failed'' 502
                (Some (PDict [(''run_coordinator_url'', PStr ''http://coordinator.test''),
                              (''error'', PStr ''connection refused'')])))"
    by (simp add: adapter_health_def call_def adapter_to_def unreachable_client_def
        example_str_def)
  from health_degraded_on_adapter_fault [OF h1 h2, where t = example_time]
  have c: "health example_str (proxy_to unreachable_client) example_time =
       Inr \<lparr>status = degraded, time = example_time,
            checks = Some [\<lparr>check_name = ''run_coordinator'', check_status = down,
                             check_message = Some ''Run Coordinator request failed'',
                             check_details = Some [(''url'', PStr ''http://coordinator.test'')]\<rparr>]\<rparr>"
    by (simp add: example_str_def adapter_to_def)
  show ?thesis
    by (intro conjI h1 h2 c)
qed

text \<open>
  C4. With a coordinator configured, for every health report the adapter returns,
  \<open>health\<close> returns a report whose status is the downstream status and whose checks are:
  first the gateway's own check, named \<open>run_coordinator\<close>, with the downstream status and
  the details \<open>url\<close> and \<open>status\<close>; then the checks of the downstream report, in their
  order.
\<close>

theorem health_mirrors_downstream_report:
  assumes "run_coordinator g = Some rc" and "adapter_health str_of rc = Inr dh"
  shows "health str_of g t =
     Inr \<lparr>status = status dh, time = t,
          checks = Some (\<lparr>check_name = ''run_coordinator'', check_status = status dh,
                           check_message = None,
                           check_details = Some [(''url'', PStr (base_url rc)),
                                                 (''status'', PStatus (status dh))]\<rparr>
                         # check_list dh)\<rparr>"
  using assms by (simp add: health_def check_list_def Let_def split: option.splits)

theorem health_mirrors_downstream_report_witness:
  "run_coordinator (proxy_to degraded_client) = Some (adapter_to degraded_client)
   \<and> adapter_health example_str (adapter_to degraded_client)
       = Inr \<lparr>status = degraded, time = example_time,
              checks = Some [\<lparr>check_name = ''db'', check_status = down,
                               check_message = None, check_details = None\<rparr>]\<rparr>
   \<and> health example_str (proxy_to degraded_client) example_time =
       Inr \<lparr>status = degraded, time = example_time,
            checks = Some [\<lparr>check_name = ''run_coordinator'', check_status = degraded,
                             check_message = None,
                             check_details = Some [(''url'', PStr ''http://coordinator.test''),
                                                   (''status'', PStatus degraded)]\<rparr>,
                           \<lparr>check_name = ''db'', check_status = down,
                             check_message = None, check_details = None\<rparr>]\<rparr>"
proof -
  have h1: "run_coordinator (proxy_to degraded_client) = Some (adapter_to degraded_client)"
    by (simp add: proxy_to_def empty_local_def)
  have h2: "adapter_health example_str (adapter_to degraded_client)
       = Inr \<lparr>status = degraded, time = example_time,
              checks = Some [\<lparr>check_name = ''db'', check_status = down,
                               check_message = None, check_details = None\<rparr>]\<rparr>"
    by (simp add: adapter_health_def call_def adapter_to_def degraded_client_def)
  from health_mirrors_downstream_report [OF h1 h2, where t = example_time]
  have c: "health example_str (proxy_to degraded_client) example_time =
       Inr \<lparr>status = degraded, time = example_time,
            checks = Some [\<lparr>check_name = ''run_coordinator'', check_status = degraded,
                             check_message = None,
                             check_details = Some [(''url'', PStr ''http://coordinator.test''),
                                                   (''status'', PStatus degraded)]\<rparr>,
                           \<lparr>check_name = ''db'', check_status = down,
                             check_message = None, check_details = None\<rparr>]\<rparr>"
    by (simp add: check_list_def adapter_to_def)
  show ?thesis
    by (intro conjI h1 h2 c)
qed


section \<open>The adapter's error mapping\<close>

text \<open>
  C1, as the code has it. For every call made through the adapter (\<open>cancel_run\<close>,
  \<open>get_run\<close>, \<open>health\<close>, \<open>start_run\<close>, \<open>stream_run_events\<close>, each of which is \<open>_call\<close> on
  the client's function): if the call raises an \<open>ArpApiError\<close>, the adapter raises an
  \<open>ArpServerError\<close> with the same code, message and details, and with the downstream
  status code when that is an integer other than 0, and 502 when the downstream supplied
  none or supplied 0; if the call raises any other exception, the adapter raises an
  \<open>ArpServerError\<close> with the code \<open>run_coordinator_unavailable\<close>, the status 502 and
  details that hold the coordinator's base URL and the string of the exception; if the
  call returns, the adapter returns its result.
\<close>

theorem adapter_error_mapping:
  "(fn request = Inl (ArpApiError c m sc d) \<longrightarrow>
      call str_of self fn request =
        Inl (ArpServerError c m
               (case sc of None \<Rightarrow> 502 | Some n \<Rightarrow> if n = 0 then 502 else n) d))
 \<and> (fn request = Inl exc \<and> (\<forall>c m sc d. exc \<noteq> ArpApiError c m sc d) \<longrightarrow>
      call str_of self fn request =
        Inl (ArpServerError ''run_coordinator_unavailable'' ''Run Coordinator request failed'' 502
               (Some (PDict [(''run_coordinator_url'', PStr (base_url self)),
                             (''error'', PStr (str_of exc))]))))
 \<and> (fn request = Inr result \<longrightarrow> call str_of self fn request = Inr result)
 \<and> adapter_cancel_run str_of self rid = call str_of self (client_cancel_run (client self)) rid
 \<and> adapter_get_run str_of self rid = call str_of self (client_get_run (client self)) rid
 \<and> adapter_health str_of self = call str_of self (client_health (client self)) ()
 \<and> adapter_start_run str_of self body = call str_of self (client_start_run (client self)) body
 \<and> adapter_stream_run_events str_of self rid
      = call str_of self (client_stream_run_events (client self)) rid"
  by (auto simp: call_def or_int_def adapter_cancel_run_def adapter_get_run_def
      adapter_health_def adapter_start_run_def adapter_stream_run_events_def
      split: exn.splits option.splits)

theorem adapter_error_mapping_witness:
  "client_get_run (client (adapter_to zero_status_client)) ''run_1''
     = Inl (ArpApiError ''upstream_error'' ''no response'' (Some 0) None)
   \<and> adapter_get_run example_str (adapter_to zero_status_client) ''run_1''
     = Inl (ArpServerError ''upstream_error'' ''no response'' 502 None)
   \<and> client_get_run (client (adapter_to unreachable_client)) ''run_1''
     = Inl (OtherException ''connection refused'')
   \<and> adapter_get_run example_str (adapter_to unreachable_client) ''run_1''
     = Inl (ArpServerError ''run_coordinator_unavailable'' ''Run Coordinator request failed'' 502
              (Some (PDict [(''run_coordinator_url'', PStr ''http://coordinator.test''),
                            (''error'', PStr ''connection refused'')])))
   \<and> client_get_run (client (adapter_to degraded_client)) ''run_1''
     = Inr (example_run ''run_1'' running)
   \<and> adapter_get_run example_str (adapter_to degraded_client) ''run_1''
     = Inr (example_run ''run_1'' running)"
proof -
  have z: "client_get_run (client (adapter_to zero_status_client)) ''run_1''
     = Inl (ArpApiError ''upstream_error'' ''no response'' (Some 0) None)"
    by (simp add: adapter_to_def zero_status_client_def)
  have u: "client_get_run (client (adapter_to unreachable_client)) ''run_1''
     = Inl (OtherException ''connection refused'')"
    by (simp add: adapter_to_def unreachable_client_def)
  have r: "client_get_run (client (adapter_to degraded_client)) ''run_1''
     = Inr (example_run ''run_1'' running)"
    by (simp add: adapter_to_def degraded_client_def)
  from z adapter_error_mapping
         [where fn = "client_get_run (client (adapter_to zero_status_client))"
            and request = "''run_1''" and rid = "''run_1''" and str_of = example_str
            and self = "adapter_to zero_status_client"
            and c = "''upstream_error''" and m = "''no response''" and sc = "Some 0" and d = None]
  have cz: "adapter_get_run example_str (adapter_to zero_status_client) ''run_1''
     = Inl (ArpServerError ''upstream_error'' ''no response'' 502 None)"
    by simp
  from u adapter_error_mapping
         [where fn = "client_get_run (client (adapter_to unreachable_client))"
            and request = "''run_1''" and rid = "''run_1''" and str_of = example_str
            and self = "adapter_to unreachable_client"
            and exc = "OtherException ''connection refused''"]
  have cu: "adapter_get_run example_str (adapter_to unreachable_client) ''run_1''
     = Inl (ArpServerError ''run_coordinator_unavailable'' ''Run Coordinator request failed'' 502
              (Some (PDict [(''run_coordinator_url'', PStr ''http://coordinator.test''),
                            (''error'', PStr ''connection refused'')])))"
    by (simp add: example_str_def adapter_to_def)
  from r adapter_error_mapping
         [where fn = "client_get_run (client (adapter_to degraded_client))"
            and request = "''run_1''" and rid = "''run_1''" and str_of = example_str
            and self = "adapter_to degraded_client"
            and result = "example_run ''run_1'' running"]
  have cr: "adapter_get_run example_str (adapter_to degraded_client) ''run_1''
     = Inr (example_run ''run_1'' running)"
    by simp
  show ?thesis
    by (intro conjI z cz u cu r cr)
qed

text \<open>
  C1, as the claim states it, fails where the downstream supplied the status code 0: the
  adapter raises with the status 502, not with the downstream's status code.
\<close>

theorem adapter_status_zero_counterexample:
  "client_get_run (client (adapter_to zero_status_client)) ''run_1''
     = Inl (ArpApiError ''upstream_error'' ''no response'' (Some 0) None)
   \<and> adapter_get_run example_str (adapter_to zero_status_client) ''run_1''
     \<noteq> Inl (ArpServerError ''upstream_error'' ''no response'' 0 None)
   \<and> adapter_get_run example_str (adapter_to zero_status_client) ''run_1''
     = Inl (ArpServerError ''upstream_error'' ''no response'' 502 None)"
  by (simp add: adapter_get_run_def call_def or_int_def adapter_to_def zero_status_client_def)


section \<open>The local event line\<close>

subsection \<open>An escaped string reads back\<close>

lemma hex_digits_below_16:
  "\<forall>n \<in> {..<16}. hex_val (hex_digit n) = Some n
      \<and> 32 \<le> (of_char (hex_digit n) :: nat) \<and> (of_char (hex_digit n) :: nat) \<le> 126"
  by (simp add: lessThan_nat_numeral hex_val_def hex_digit_def)

lemma hex_val_hex_digit: "n < 16 \<Longrightarrow> hex_val (hex_digit n) = Some n"
  using hex_digits_below_16 by simp

lemma hex_digit_printable:
  "n < 16 \<Longrightarrow> 32 \<le> (of_char (hex_digit n) :: nat) \<and> (of_char (hex_digit n) :: nat) \<le> 126"
  using hex_digits_below_16 by simp

lemma of_char_below_256: "(of_char c :: nat) < 256"
  by (cases c) simp

lemma hex4_of_char:
  "hex4 (CHR ''0'') (CHR ''0'') (hex_digit (of_char c div 16)) (hex_digit (of_char c mod 16))
     = Some (of_char c)"
proof -
  have "(of_char c :: nat) div 16 < 16"
    using of_char_below_256 [of c] by arith
  moreover have "(of_char c :: nat) mod 16 < 16"
    by simp
  moreover have "hex_val (CHR ''0'') = Some 0"
    by (simp add: hex_val_def)
  ultimately show ?thesis
    by (simp add: hex4_def hex_val_hex_digit)
qed

lemma scan_string_escape_char:
  "scan_string (escape_char c @ rest) = cons_fst c (scan_string rest)"
proof -
  consider (backslash) "c = CHR 0x5C" | (quote) "c = CHR 0x22" | (b) "c = CHR 0x08"
    | (f) "c = CHR 0x0C" | (n) "c = CHR 0x0A" | (r) "c = CHR 0x0D" | (t) "c = CHR 0x09"
    | (plain) "c \<noteq> CHR 0x5C" "c \<noteq> CHR 0x22"
        "32 \<le> (of_char c :: nat)" "(of_char c :: nat) \<le> 126"
    | (u) "c \<noteq> CHR 0x5C" "c \<noteq> CHR 0x22" "c \<noteq> CHR 0x08" "c \<noteq> CHR 0x0C" "c \<noteq> CHR 0x0A"
        "c \<noteq> CHR 0x0D" "c \<noteq> CHR 0x09"
        "\<not> (32 \<le> (of_char c :: nat) \<and> (of_char c :: nat) \<le> 126)"
    by blast
  then show ?thesis
  proof cases
    case plain
    from plain(3) have "c \<noteq> CHR 0x08" "c \<noteq> CHR 0x0C" "c \<noteq> CHR 0x0A" "c \<noteq> CHR 0x0D"
      "c \<noteq> CHR 0x09"
      by auto
    with plain show ?thesis
      by (simp add: escape_char_def)
  next
    case u
    then have "escape_char c =
        [CHR 0x5C, CHR ''u'', CHR ''0'', CHR ''0'',
         hex_digit (of_char c div 16), hex_digit (of_char c mod 16)]"
      by (simp add: escape_char_def)
    then show ?thesis
      using of_char_below_256 [of c] by (simp add: hex4_of_char)
  qed (simp_all add: escape_char_def unescape_def)
qed

lemma scan_string_escape_ascii:
  "scan_string (escape_ascii s @ CHR 0x22 # rest) = Some (s, rest)"
  by (induction s) (simp_all add: escape_ascii_def scan_string_escape_char cons_fst_def)

lemma escape_char_printable:
  assumes "x \<in> set (escape_char c)"
  shows "32 \<le> (of_char x :: nat) \<and> (of_char x :: nat) \<le> 126"
proof -
  have d: "(of_char c :: nat) div 16 < 16"
    using of_char_below_256 [of c] by arith
  have m: "(of_char c :: nat) mod 16 < 16"
    by simp
  from assms show ?thesis
    using hex_digit_printable [OF d] hex_digit_printable [OF m]
    by (auto simp: escape_char_def split: if_splits)
qed

lemma escape_ascii_printable:
  "x \<in> set (escape_ascii s) \<Longrightarrow> 32 \<le> (of_char x :: nat) \<and> (of_char x :: nat) \<le> 126"
  by (auto simp: escape_ascii_def dest: escape_char_printable)

subsection \<open>The line of \<open>stream_run_events\<close>\<close>

lemma str_int_0: "str_int 0 = ''0''"
  by (simp add: str_int_def str_nat.simps)

lemma dumps_payload:
  "dumps (payload rid t) =
     ''{'' @ encode_basestring_ascii ''run_id'' @ '': '' @ encode_basestring_ascii rid @ '', ''
       @ encode_basestring_ascii ''seq'' @ '': '' @ ''0'' @ '', ''
       @ encode_basestring_ascii ''type'' @ '': '' @ encode_basestring_ascii ''run_started''
       @ '', ''
       @ encode_basestring_ascii ''time'' @ '': '' @ encode_basestring_ascii (isoformat t)
       @ '', ''
       @ encode_basestring_ascii ''data'' @ '': ''
       @ (''{'' @ encode_basestring_ascii ''message'' @ '': ''
            @ encode_basestring_ascii ''Template Run Gateway does not stream real events yet.''
            @ ''}'')
       @ ''}''"
  by (simp add: payload_def str_int_0)

lemma skip_ws_simps:
  "skip_ws [] = []"
  "skip_ws (c # cs) = (if is_ws c then skip_ws cs else c # cs)"
  by (simp_all add: skip_ws_def)

lemma parse_value_payload:
  "parse_value (9 + k) (dumps (payload rid t) @ [CHR 0x0A]) = Some (payload rid t, [CHR 0x0A])"
  unfolding dumps_payload
  by (simp add: eval_nat_numeral encode_basestring_ascii_def scan_string_escape_ascii
      skip_ws_simps is_ws_def payload_def scan_int_def scan_nat_def cons_fst_def)

lemma dumps_payload_printable:
  "x \<in> set (dumps (payload rid t)) \<Longrightarrow> 32 \<le> (of_char x :: nat) \<and> (of_char x :: nat) \<le> 126"
  unfolding dumps_payload
  by (auto simp: encode_basestring_ascii_def dest: escape_ascii_printable)

lemma length_dumps_payload: "9 \<le> length (dumps (payload rid t) @ [CHR 0x0A])"
  unfolding dumps_payload by (simp add: encode_basestring_ascii_def)

lemma loads_dumps_payload: "loads (dumps (payload rid t) @ [CHR 0x0A]) = Some (payload rid t)"
proof -
  obtain k where k: "length (dumps (payload rid t) @ [CHR 0x0A]) = 9 + k"
    using length_dumps_payload [of rid t] le_Suc_ex by blast
  show ?thesis
    unfolding loads_def k parse_value_payload by (simp add: skip_ws_simps is_ws_def)
qed

text \<open>
  C9. In local mode, for every \<open>run_id\<close>, \<open>stream_run_events\<close> returns one line of text
  ended by a newline: the text before the newline consists of printable ASCII characters
  only, so it holds no line break. Read back as JSON, the line gives the five fields:
  \<open>run_id\<close>, equal to the requested identifier, \<open>seq = 0\<close>, \<open>type = "run_started"\<close>, the
  time read by the call in ISO format, and the fixed placeholder message.
\<close>

theorem stream_run_events_local_line_round_trip:
  assumes "run_coordinator g = None"
  shows "stream_run_events str_of g t rid = Inr (dumps (payload rid t) @ [CHR 0x0A])
       \<and> (\<forall>c \<in> set (dumps (payload rid t)). (32::nat) \<le> of_char c \<and> (of_char c :: nat) \<le> 126)
       \<and> CHR 0x0A \<notin> set (dumps (payload rid t))
       \<and> loads (dumps (payload rid t) @ [CHR 0x0A]) =
           Some (JObj [(''run_id'', JStr rid),
                       (''seq'', JInt 0),
                       (''type'', JStr ''run_started''),
                       (''time'', JStr (isoformat t)),
                       (''data'',
                        JObj [(''message'',
                               JStr ''Template Run Gateway does not stream real events yet.'')])])"
proof -
  from assms
  have "stream_run_events str_of g t rid = Inr (dumps (payload rid t) @ [CHR 0x0A])"
    by (simp add: stream_run_events_def)
  moreover
  have p: "\<forall>c \<in> set (dumps (payload rid t)). (32::nat) \<le> of_char c \<and> (of_char c :: nat) \<le> 126"
    using dumps_payload_printable by blast
  moreover have "CHR 0x0A \<notin> set (dumps (payload rid t))"
  proof
    assume "CHR 0x0A \<in> set (dumps (payload rid t))"
    with p have "(32::nat) \<le> of_char (CHR 0x0A)"
      by blast
    then show False
      by simp
  qed
  moreover have "loads (dumps (payload rid t) @ [CHR 0x0A]) =
           Some (JObj [(''run_id'', JStr rid),
                       (''seq'', JInt 0),
                       (''type'', JStr ''run_started''),
                       (''time'', JStr (isoformat t)),
                       (''data'',
                        JObj [(''message'',
                               JStr ''Template Run Gateway does not stream real events yet.'')])])"
    unfolding loads_dumps_payload by (simp add: payload_def)
  ultimately show ?thesis
    by blast
qed

theorem stream_run_events_local_line_round_trip_witness:
  "run_coordinator empty_local = None
   \<and> stream_run_events example_str empty_local example_time ''run_1''
       = Inr (dumps (payload ''run_1'' example_time) @ [CHR 0x0A])
   \<and> length (dumps (payload ''run_1'' example_time)) = 167
   \<and> CHR 0x0A \<notin> set (dumps (payload ''run_1'' example_time))
   \<and> loads (dumps (payload ''run_1'' example_time) @ [CHR 0x0A]) =
       Some (JObj [(''run_id'', JStr ''run_1''),
                   (''seq'', JInt 0),
                   (''type'', JStr ''run_started''),
                   (''time'', JStr ''2026-01-02T03:04:05+00:00''),
                   (''data'',
                    JObj [(''message'',
                           JStr ''Template Run Gateway does not stream real events yet.'')])])"
proof -
  have h: "run_coordinator empty_local = None"
    by (simp add: empty_local_def)
  note inst = stream_run_events_local_line_round_trip
                [OF h, where str_of = example_str and t = example_time and rid = "''run_1''"]
  have iso: "isoformat example_time = ''2026-01-02T03:04:05+00:00''"
    by (simp add: isoformat_def example_time_def zfill_def str_nat.simps)
  from inst
  have c1: "stream_run_events example_str empty_local example_time ''run_1''
       = Inr (dumps (payload ''run_1'' example_time) @ [CHR 0x0A])"
    by blast
  have c2: "length (dumps (payload ''run_1'' example_time)) = 167"
    unfolding dumps_payload iso
    by (simp add: encode_basestring_ascii_def escape_ascii_def escape_char_def)
  from inst have c3: "CHR 0x0A \<notin> set (dumps (payload ''run_1'' example_time))"
    by blast
  from inst
  have c4: "loads (dumps (payload ''run_1'' example_time) @ [CHR 0x0A]) =
       Some (JObj [(''run_id'', JStr ''run_1''),
                   (''seq'', JInt 0),
                   (''type'', JStr ''run_started''),
                   (''time'', JStr ''2026-01-02T03:04:05+00:00''),
                   (''data'',
                    JObj [(''message'',
                           JStr ''Template Run Gateway does not stream real events yet.'')])])"
    unfolding iso by blast
  show ?thesis
    by (intro conjI h c1 c2 c3 c4)
qed

end
